theory Spec2Isabelle
  imports Complex_Main
begin

section \<open>Trident's SpectrumGenerator (trident/spectrum_generator.py)\<close>

text \<open>
  A shallow embedding of the methods of \<^verbatim>\<open>SpectrumGenerator\<close>. Conventions:
  \<^item> a Python exception is a value of \<open>error\<close>, and a method that can raise returns
    \<open>error + 'a\<close> (\<open>Inl\<close> the exception);
  \<^item> a finite double is idealised as a \<open>real\<close>; a flux value is a \<open>real option\<close>, where
    \<open>None\<close> stands for a non-finite double (inf or nan), which numpy produces without
    raising when a division by zero occurs;
  \<^item> wavelengths (the generator's \<^verbatim>\<open>lambda_bins\<close> and the first column of a template)
    are finite, hence \<open>real\<close>;
  \<^item> \<^verbatim>\<open>self\<close> is a record passed in and returned; the generator is taken after a
    spectrum exists, so \<^verbatim>\<open>self.flux_field\<close> is an array and not \<^verbatim>\<open>None\<close>;
  \<^item> a method keeps its name, without the leading underscore of a private one;
  \<^item> numpy, h5py, yt and the sibling modules \<^verbatim>\<open>instrument\<close>, \<^verbatim>\<open>lsf\<close>,
    \<^verbatim>\<open>ion_balance\<close> are not part of the file: their operations are either written
    out from their documented behaviour (\<^verbatim>\<open>np.digitize\<close>, \<^verbatim>\<open>np.clip\<close>,
    \<^verbatim>\<open>np.convolve\<close>, broadcasting) or taken as parameters.
\<close>

datatype error =
  RuntimeError | ValueError | IndexError | IOError | KeyError
  | TypeError | NameError | AttributeError | ZeroDivisionError

type_synonym fl = "real option"

subsection \<open>Instruments and the preset table\<close>

text \<open>
  The class \<^verbatim>\<open>Instrument\<close> lives in the module \<^verbatim>\<open>instrument\<close>. An instrument
  is recorded here by the arguments its constructor is called with; \<open>None\<close> is an argument
  left at \<^verbatim>\<open>None\<close>.
\<close>

record instrument =
  lambda_min :: "real option"
  lambda_max :: "real option"
  n_lambda :: "int option"
  dlambda :: "real option"
  lsf_kernel :: "string option"
  name :: "string option"

definition Instrument ::
  "real option \<Rightarrow> real option \<Rightarrow> int option \<Rightarrow> real option \<Rightarrow> string option
    \<Rightarrow> string option \<Rightarrow> instrument" where
  "Instrument lmin lmax n d k nm =
     \<lparr>lambda_min = lmin, lambda_max = lmax, n_lambda = n, dlambda = d,
      lsf_kernel = k, name = nm\<rparr>"

text \<open>Lines 39-49: the dictionary \<^verbatim>\<open>valid_instruments\<close>, in the order of the source.\<close>

definition valid_instruments_items :: "(string \<times> instrument) list" where
  "valid_instruments_items =
     [(''COS'', Instrument (Some 1150) (Some 1450) None (Some (1 / 100))
                  (Some ''avg_COS.txt'') (Some ''COS'')),
      (''HIRES'', Instrument (Some 1200) (Some 1400) None (Some (1 / 100)) None (Some ''HIRES'')),
      (''UVES'', Instrument (Some 1200) (Some 1400) None (Some (1 / 100)) None (Some ''UVES'')),
      (''MODS'', Instrument (Some 1200) (Some 1400) None (Some (1 / 100)) None (Some ''MODS'')),
      (''SDSS'', Instrument (Some 1200) (Some 1400) None (Some (1 / 100)) None (Some ''SDSS''))]"

definition valid_instruments :: "string \<rightharpoonup> instrument" where
  "valid_instruments = map_of valid_instruments_items"

subsection \<open>The generator's state\<close>

record generator =
  instrument :: "instrument option"
  lambda_bins :: "real list"
  flux_field :: "fl list"

text \<open>
  What a caller may pass as \<^verbatim>\<open>instrument\<close>: a \<^verbatim>\<open>str\<close>, an \<^verbatim>\<open>Instrument\<close>
  object, or a value of any other type.
\<close>

datatype instrument_arg = Name string | Obj instrument | Other

text \<open>Lines 392-419: \<^verbatim>\<open>set_instrument\<close>.\<close>

definition set_instrument :: "generator \<Rightarrow> instrument_arg \<Rightarrow> error + generator" where
  "set_instrument self arg =
     (case arg of
        Name s \<Rightarrow>
          (case valid_instruments s of
             None \<Rightarrow> Inl RuntimeError
           | Some i \<Rightarrow> Inr (self\<lparr>instrument := Some i\<rparr>))
      | Obj i \<Rightarrow> Inr (self\<lparr>instrument := Some i\<rparr>)
      | Other \<Rightarrow> Inl RuntimeError)"

text \<open>
  Lines 90-99 of \<^verbatim>\<open>__init__\<close>: the choice of the instrument. The constructor of
  \<^verbatim>\<open>Instrument\<close> is not in the file, so what it does with the arguments of a custom
  range (it may raise) is the parameter \<open>ctor\<close>. The rest of \<^verbatim>\<open>__init__\<close> (the
  parent's constructor, the line database, the ionization table) does not touch
  \<^verbatim>\<open>self.instrument\<close>.
\<close>

definition init_instrument ::
  "(instrument \<Rightarrow> error + instrument) \<Rightarrow> generator \<Rightarrow> instrument_arg option
    \<Rightarrow> real option \<Rightarrow> real option \<Rightarrow> int option \<Rightarrow> real option \<Rightarrow> string option
    \<Rightarrow> error + generator" where
  "init_instrument ctor self instr lmin lmax n d k =
     (case instr of
        None \<Rightarrow>
          (case lmin of
             None \<Rightarrow> set_instrument self (Name ''COS'')
           | Some _ \<Rightarrow>
               (case ctor (Instrument lmin lmax n d k (Some ''Custom'')) of
                  Inl e \<Rightarrow> Inl e
                | Inr i \<Rightarrow> set_instrument self (Obj i)))
      | Some a \<Rightarrow> set_instrument self a)"

subsection \<open>Doubles and numpy's array operations\<close>

text \<open>
  Arithmetic on flux values: a non-finite operand gives a non-finite result (inf and nan
  never turn finite under addition and multiplication). A division of finite doubles by
  zero gives inf or nan, with a warning and no exception.
\<close>

definition fadd :: "fl \<Rightarrow> fl \<Rightarrow> fl" where
  "fadd a b = (case a of None \<Rightarrow> None | Some x \<Rightarrow> (case b of None \<Rightarrow> None | Some y \<Rightarrow> Some (x + y)))"

definition fmul :: "fl \<Rightarrow> fl \<Rightarrow> fl" where
  "fmul a b = (case a of None \<Rightarrow> None | Some x \<Rightarrow> (case b of None \<Rightarrow> None | Some y \<Rightarrow> Some (x * y)))"

definition fdiv :: "real \<Rightarrow> real \<Rightarrow> fl" where
  "fdiv a b = (if b = 0 then None else Some (a / b))"

text \<open>
  \<^verbatim>\<open>np.digitize(x, bins)\<close> with \<^verbatim>\<open>right=False\<close>: the bins must be monotonic
  (non-decreasing is tried first, so constant bins count as increasing), else it raises
  \<^verbatim>\<open>ValueError\<close>. For increasing bins the index \<open>i\<close> of \<open>x\<close> has
  \<open>bins[i-1] \<le> x < bins[i]\<close>, which is the number of bins at most \<open>x\<close>; for decreasing
  bins \<open>bins[i-1] > x \<ge> bins[i]\<close>, the number of bins above \<open>x\<close>.
\<close>

definition digitize :: "real list \<Rightarrow> real list \<Rightarrow> error + int list" where
  "digitize xs bins =
     (if sorted bins then Inr (map (\<lambda>x. int (length (filter (\<lambda>b. b \<le> x) bins))) xs)
      else if sorted (rev bins) then Inr (map (\<lambda>x. int (length (filter (\<lambda>b. x < b) bins))) xs)
      else Inl ValueError)"

text \<open>\<^verbatim>\<open>np.clip(a, a_min, a_max)\<close> is \<^verbatim>\<open>minimum(a_max, maximum(a, a_min))\<close>.\<close>

definition clip :: "int \<Rightarrow> int \<Rightarrow> int \<Rightarrow> int" where
  "clip a a_min a_max = min a_max (max a a_min)"

text \<open>
  An in-place binary operation \<^verbatim>\<open>a op= b\<close> (also \<^verbatim>\<open>np.add(a, b, out=a)\<close>) on
  one-dimensional arrays: \<open>b\<close> must broadcast to the shape of \<open>a\<close>, that is, have the
  same length or length one; otherwise numpy raises \<^verbatim>\<open>ValueError\<close>.
\<close>

definition inplace :: "(fl \<Rightarrow> fl \<Rightarrow> fl) \<Rightarrow> fl list \<Rightarrow> fl list \<Rightarrow> error + fl list" where
  "inplace f a b =
     (if length b = length a then Inr (map (\<lambda>(x, y). f x y) (zip a b))
      else if length b = 1 then Inr (map (\<lambda>x. f x (hd b)) a)
      else Inl ValueError)"

text \<open>
  \<^verbatim>\<open>np.convolve(a, v, 'same')\<close>: both arrays must be non-empty; the longer one is
  taken as \<open>a\<close>; the full convolution \<open>full[k] = \<Sum>m. a[k-m] * v[m]\<close> has length
  \<open>len(a) + len(v) - 1\<close>, and mode same returns its \<open>len(a)\<close> entries from offset
  \<open>(len(v) - 1) div 2\<close> on.
\<close>

definition fsum :: "fl list \<Rightarrow> fl" where
  "fsum xs = foldl fadd (Some 0) xs"

definition convolve_full :: "fl list \<Rightarrow> fl list \<Rightarrow> fl list" where
  "convolve_full a v =
     map (\<lambda>k. fsum (map (\<lambda>m. fmul (a ! (k - m)) (v ! m))
                  (filter (\<lambda>m. m \<le> k \<and> k - m < length a) [0..<length v])))
       [0..<length a + length v - 1]"

definition convolve_same :: "fl list \<Rightarrow> fl list \<Rightarrow> error + fl list" where
  "convolve_same a v =
     (if a = [] \<or> v = [] then Inl ValueError
      else if length a < length v
        then Inr (take (length v) (drop ((length a - 1) div 2) (convolve_full v a)))
        else Inr (take (length a) (drop ((length v - 1) div 2) (convolve_full a v))))"

subsection \<open>Template interpolation\<close>

text \<open>
  A template file, as \<^verbatim>\<open>np.loadtxt\<close> parses it: its rows of two numbers. The files
  on disk are a map from names; a missing file raises \<^verbatim>\<open>IOError\<close>. With fewer than
  two rows \<^verbatim>\<open>loadtxt\<close> returns a one-dimensional array and \<^verbatim>\<open>data[:, 0]\<close> raises
  \<^verbatim>\<open>IndexError\<close>.
\<close>

type_synonym tables = "string \<rightharpoonup> (real \<times> real) list"

definition loadtxt_columns :: "tables \<Rightarrow> string \<Rightarrow> error + (real list \<times> real list)" where
  "loadtxt_columns tabs filename =
     (case tabs filename of
        None \<Rightarrow> Inl IOError
      | Some rows \<Rightarrow>
          if length rows < 2 then Inl IndexError else Inr (map fst rows, map snd rows))"

text \<open>
  Lines 225-229 (and, with other names, 247-251): the index of each bin among the template
  wavelengths, clipped to \<open>[1, size - 1]\<close>, the slope of the segment ending at that index,
  and the value of that line at the bin. The arithmetic here is that of the reals: the
  rounding of each double operation is not modelled, so the definition fixes which segment
  a bin is interpolated on, where the result is not finite and its sign and size, but not
  its last bits.
\<close>

definition interpolate :: "real list \<Rightarrow> real list \<Rightarrow> real list \<Rightarrow> error + fl list" where
  "interpolate lam flux bins =
     (case digitize bins lam of
        Inl e \<Rightarrow> Inl e
      | Inr index \<Rightarrow>
          Inr (map (\<lambda>(i0, x).
                 let i = nat (clip i0 1 (int (length lam) - 1));
                     slope = fdiv (flux ! i - flux ! (i - 1)) (lam ! i - lam ! (i - 1))
                 in fadd (fmul slope (Some (x - lam ! i))) (Some (flux ! i)))
               (zip index bins)))"

definition qso_default :: string where
  "qso_default = ''../data/spectral_templates/qso_background_COS_HST.txt''"

definition mw_default :: string where
  "mw_default = ''../data/spectral_templates/mw_foreground_COS.txt''"

text \<open>Lines 209-230: \<^verbatim>\<open>_get_qso_spectrum\<close>.\<close>

definition get_qso_spectrum ::
  "tables \<Rightarrow> generator \<Rightarrow> real \<Rightarrow> string option \<Rightarrow> error + fl list" where
  "get_qso_spectrum tabs self redshift filename =
     (case loadtxt_columns tabs (case filename of None \<Rightarrow> qso_default | Some f \<Rightarrow> f) of
        Inl e \<Rightarrow> Inl e
      | Inr (col0, qso_flux) \<Rightarrow>
          interpolate (map (\<lambda>l. l + l * redshift) col0) qso_flux (lambda_bins self))"

text \<open>Lines 232-254: \<^verbatim>\<open>_get_milky_way_foreground\<close>.\<close>

definition get_milky_way_foreground ::
  "tables \<Rightarrow> generator \<Rightarrow> string option \<Rightarrow> error + fl list" where
  "get_milky_way_foreground tabs self filename =
     (case loadtxt_columns tabs (case filename of None \<Rightarrow> mw_default | Some f \<Rightarrow> f) of
        Inl e \<Rightarrow> Inl e
      | Inr (MW_lambda, MW_flux) \<Rightarrow>
          (case interpolate MW_lambda MW_flux (lambda_bins self) of
             Inl e \<Rightarrow> Inl e
           | Inr my_flux \<Rightarrow>
               Inr (map (\<lambda>(x, f). if x > 17999444 / 10000 then Some 1 else f)
                      (zip (lambda_bins self) my_flux))))"

subsection \<open>The post-processing stages\<close>

text \<open>
  A stage that works in place returns the generator and the array it has mutated: the
  generator's own flux field when the array argument is \<^verbatim>\<open>None\<close>, else the array
  passed in (then the generator is unchanged).
\<close>

definition target_of :: "generator \<Rightarrow> fl list option \<Rightarrow> fl list" where
  "target_of self arg = (case arg of None \<Rightarrow> flux_field self | Some a \<Rightarrow> a)"

definition store_target :: "generator \<Rightarrow> fl list option \<Rightarrow> fl list \<Rightarrow> generator \<times> fl list" where
  "store_target self arg result =
     (case arg of None \<Rightarrow> (self\<lparr>flux_field := result\<rparr>, result) | Some _ \<Rightarrow> (self, result))"

text \<open>Lines 256-274: \<^verbatim>\<open>add_milky_way_foreground\<close>.\<close>

definition add_milky_way_foreground ::
  "tables \<Rightarrow> generator \<Rightarrow> fl list option \<Rightarrow> string option \<Rightarrow> error + generator \<times> fl list" where
  "add_milky_way_foreground tabs self flux_field_arg filename =
     (case get_milky_way_foreground tabs self filename of
        Inl e \<Rightarrow> Inl e
      | Inr MW_spectrum \<Rightarrow>
          (case inplace fmul (target_of self flux_field_arg) MW_spectrum of
             Inl e \<Rightarrow> Inl e
           | Inr r \<Rightarrow> Inr (store_target self flux_field_arg r)))"

text \<open>Lines 276-298: \<^verbatim>\<open>add_qso_spectrum\<close>.\<close>

definition add_qso_spectrum ::
  "tables \<Rightarrow> generator \<Rightarrow> fl list option \<Rightarrow> real \<Rightarrow> string option
    \<Rightarrow> error + generator \<times> fl list" where
  "add_qso_spectrum tabs self flux_field_arg redshift filename =
     (case get_qso_spectrum tabs self redshift filename of
        Inl e \<Rightarrow> Inl e
      | Inr qso_spectrum \<Rightarrow>
          (case inplace fmul (target_of self flux_field_arg) qso_spectrum of
             Inl e \<Rightarrow> Inl e
           | Inr r \<Rightarrow> Inr (store_target self flux_field_arg r)))"

text \<open>
  numpy's global random generator. Its state has some type \<open>'g\<close>; \<open>seed_state s\<close> is
  the state \<^verbatim>\<open>np.random.seed(s)\<close> installs for an integer \<open>0 \<le> s < 2^32\<close> (other
  integers raise \<^verbatim>\<open>ValueError\<close>), \<open>gauss\<close> draws one standard normal deviate and
  steps the state. \<^verbatim>\<open>np.random.seed(None)\<close> installs a state read from the operating
  system, \<open>os_entropy\<close> of the world the call runs in.
\<close>

record 'g world =
  rng_state :: 'g
  os_entropy :: 'g

fun normal_draws :: "('g \<Rightarrow> real \<times> 'g) \<Rightarrow> real \<Rightarrow> real \<Rightarrow> nat \<Rightarrow> 'g \<Rightarrow> real list \<times> 'g" where
  "normal_draws gauss loc scale 0 g = ([], g)"
| "normal_draws gauss loc scale (Suc n) g =
     (case gauss g of (z, g') \<Rightarrow>
        (case normal_draws gauss loc scale n g' of (zs, g'') \<Rightarrow> ((loc + scale * z) # zs, g'')))"

definition random_seed :: "(int \<Rightarrow> 'g) \<Rightarrow> 'g world \<Rightarrow> int option \<Rightarrow> error + 'g world" where
  "random_seed seed_state w seed =
     (case seed of
        None \<Rightarrow> Inr (w\<lparr>rng_state := os_entropy w\<rparr>)
      | Some s \<Rightarrow>
          if 0 \<le> s \<and> s < 2 ^ 32 then Inr (w\<lparr>rng_state := seed_state s\<rparr>) else Inl ValueError)"

text \<open>
  Lines 300-329: \<^verbatim>\<open>add_gaussian_noise\<close>. \<^verbatim>\<open>1/float(snr)\<close> raises
  \<^verbatim>\<open>ZeroDivisionError\<close> for \<open>snr = 0\<close>; \<^verbatim>\<open>np.random.normal\<close> raises
  \<^verbatim>\<open>ValueError\<close> for a negative scale or size.
\<close>

definition resolve_n_bins :: "generator \<Rightarrow> int option \<Rightarrow> int" where
  "resolve_n_bins self n_bins_arg =
     (case n_bins_arg of None \<Rightarrow> int (length (lambda_bins self)) | Some n \<Rightarrow> n)"

definition add_gaussian_noise ::
  "(int \<Rightarrow> 'g) \<Rightarrow> ('g \<Rightarrow> real \<times> 'g) \<Rightarrow> 'g world \<Rightarrow> generator \<Rightarrow> real \<Rightarrow> int option
    \<Rightarrow> fl list option \<Rightarrow> int option \<Rightarrow> error + 'g world \<times> generator \<times> fl list" where
  "add_gaussian_noise seed_state gauss w self snr n_bins_arg out_arg seed =
     (case random_seed seed_state w seed of
        Inl e \<Rightarrow> Inl e
      | Inr w1 \<Rightarrow>
          if snr = 0 then Inl ZeroDivisionError
          else if 1 / snr < 0 \<or> resolve_n_bins self n_bins_arg < 0 then Inl ValueError
          else (case normal_draws gauss 0 (1 / snr) (nat (resolve_n_bins self n_bins_arg))
                       (rng_state w1) of
                  (noise, g2) \<Rightarrow>
                    (case inplace fadd (target_of self out_arg) (map Some noise) of
                       Inl e \<Rightarrow> Inl e
                     | Inr r \<Rightarrow>
                         (case store_target self out_arg r of
                            (self', out') \<Rightarrow> Inr (w1\<lparr>rng_state := g2\<rparr>, self', out')))))"

text \<open>
  Lines 331-365: \<^verbatim>\<open>apply_lsf\<close>. The class \<^verbatim>\<open>LSF\<close> (module \<^verbatim>\<open>lsf\<close>) is not
  in the file: \<open>LSF function width filename\<close> is the kernel its constructor builds, or
  the exception it raises. \<open>select_lsf\<close> is lines 353-364, the choice of the kernel;
  line 365 convolves it with the flux field and rebinds \<^verbatim>\<open>self.flux_field\<close>.
\<close>

definition select_lsf ::
  "(string option \<Rightarrow> int option \<Rightarrow> string option \<Rightarrow> error + fl list) \<Rightarrow> generator
    \<Rightarrow> string option \<Rightarrow> int option \<Rightarrow> string option \<Rightarrow> error + fl list" where
  "select_lsf LSF self function width filename =
     (if function = None \<and> width = None \<and> filename = None
      then (case instrument self of
              None \<Rightarrow> Inl AttributeError
            | Some i \<Rightarrow>
                (case lsf_kernel i of
                   None \<Rightarrow> Inl RuntimeError
                 | Some k \<Rightarrow> LSF None None (Some k)))
      else LSF function width filename)"

definition apply_lsf ::
  "(string option \<Rightarrow> int option \<Rightarrow> string option \<Rightarrow> error + fl list) \<Rightarrow> generator
    \<Rightarrow> string option \<Rightarrow> int option \<Rightarrow> string option \<Rightarrow> error + generator" where
  "apply_lsf LSF self function width filename =
     (case select_lsf LSF self function width filename of
        Inl e \<Rightarrow> Inl e
      | Inr lsf_k \<Rightarrow>
          (case convolve_same lsf_k (flux_field self) of
             Inl e \<Rightarrow> Inl e
           | Inr r \<Rightarrow> Inr (self\<lparr>flux_field := r\<rparr>)))"

text \<open>The data-model invariant of a flux field: every entry a finite number, not below 0.\<close>

definition nonneg_flux :: "fl list \<Rightarrow> bool" where
  "nonneg_flux fs = list_all (\<lambda>v. case v of None \<Rightarrow> False | Some x \<Rightarrow> 0 \<le> x) fs"

subsection \<open>Ion fields: the fallback of make\_spectrum\<close>

text \<open>Python's \<^verbatim>\<open>s.find(sub)\<close>: the lowest index where \<open>sub\<close> starts in \<open>s\<close>, or -1.\<close>

fun find_py :: "string \<Rightarrow> string \<Rightarrow> int" where
  "find_py [] sub = (if sub = [] then 0 else - 1)"
| "find_py (x # xs) sub =
     (if take (length sub) (x # xs) = sub then 0
      else (let r = find_py xs sub in if r < 0 then - 1 else r + 1))"

text \<open>The slice \<^verbatim>\<open>s[:k]\<close>; a negative \<open>k\<close> counts from the end.\<close>

definition slice_to :: "string \<Rightarrow> int \<Rightarrow> string" where
  "slice_to s k = (if k < 0 then take (nat (int (length s) + k)) s else take (nat k) s)"

text \<open>
  \<^verbatim>\<open>s.split(c)\<close> for a separator of one character: the pieces between the
  separators, at least one; the empty string gives one empty piece.
\<close>

fun split_py :: "char \<Rightarrow> string \<Rightarrow> string list" where
  "split_py c [] = [[]]"
| "split_py c (x # xs) =
     (if x = c then [] # split_py c xs
      else (case split_py c xs of [] \<Rightarrow> [[x]] | w # ws \<Rightarrow> (x # w) # ws))"

text \<open>
  \<^verbatim>\<open>int(s)\<close> on a string: white space around, an optional sign, then one or more
  decimal digits; anything else raises \<^verbatim>\<open>ValueError\<close>.
\<close>

definition is_space :: "char \<Rightarrow> bool" where
  "is_space c = (c \<in> set [CHR '' '', CHR 0x09, CHR 0x0A, CHR 0x0B, CHR 0x0C, CHR 0x0D])"

definition is_digit :: "char \<Rightarrow> bool" where
  "is_digit c = (c \<in> set ''0123456789'')"

definition digit_val :: "char \<Rightarrow> int" where
  "digit_val c = int (of_char c) - 48"

definition strip :: "string \<Rightarrow> string" where
  "strip s = rev (dropWhile is_space (rev (dropWhile is_space s)))"

definition digits_val :: "string \<Rightarrow> int" where
  "digits_val ds = foldl (\<lambda>a d. 10 * a + digit_val d) 0 ds"

definition py_int :: "string \<Rightarrow> error + int" where
  "py_int s =
     (let t = strip s;
          neg = (t \<noteq> [] \<and> hd t = CHR ''-'');
          u = (if t \<noteq> [] \<and> (hd t = CHR ''-'' \<or> hd t = CHR ''+'') then tl t else t)
      in if u \<noteq> [] \<and> list_all is_digit u
         then Inr (if neg then - digits_val u else digits_val u)
         else Inl ValueError)"

text \<open>
  The local variables \<^verbatim>\<open>on_ion\<close> and \<^verbatim>\<open>my_lev\<close> of \<^verbatim>\<open>make_spectrum\<close>: unbound
  (\<open>None\<close>) until a pass of the loop assigns them, and kept from one pass to the next.
\<close>

record locals =
  on_ion :: "string list option"
  my_lev :: "int option"

text \<open>Lines 186-192: the field name is cut at \<^verbatim>\<open>number_density\<close> and split at underscores.\<close>

definition parse_ion_field :: "string \<Rightarrow> locals \<Rightarrow> error + locals" where
  "parse_ion_field field loc =
     (let my_ion = slice_to field (find_py field ''number_density'');
          on = split_py (CHR ''_'') my_ion
      in if length on < 2 then Inl IndexError
         else if on ! 1 \<noteq> []
           then (case py_int (tl (on ! 1)) of
                   Inl e \<Rightarrow> Inl e
                 | Inr v \<Rightarrow> Inr (loc\<lparr>on_ion := Some on, my_lev := Some (v + 1)\<rparr>))
           else Inr (loc\<lparr>on_ion := Some on, my_lev := Some 1\<rparr>))"

text \<open>
  Lines 182-195, one pass of the loop over the lines, for the field of the line.
  \<open>determined\<close>: \<^verbatim>\<open>ad._determine_fields(line.field)\<close> returns (does not raise);
  \<open>derived\<close>: the field is in \<^verbatim>\<open>input_ds.derived_field_list\<close>. The result is the
  locals after the pass and the call of \<^verbatim>\<open>add_ion_number_density_field\<close> made, if any,
  by its element and level. The call stands in the \<^verbatim>\<open>except\<close> block after the
  \<^verbatim>\<open>if\<close>, so it reads the locals whether or not this pass has assigned them.
\<close>

definition ensure_ion_field ::
  "bool \<Rightarrow> bool \<Rightarrow> string \<Rightarrow> locals \<Rightarrow> error + locals \<times> (string \<times> int) option" where
  "ensure_ion_field determined derived field loc =
     (if determined then Inr (loc, None)
      else (case (if \<not> derived then parse_ion_field field loc else Inr loc) of
              Inl e \<Rightarrow> Inl e
            | Inr loc' \<Rightarrow>
                (case on_ion loc' of
                   None \<Rightarrow> Inl NameError
                 | Some on \<Rightarrow>
                     (case my_lev loc' of
                        None \<Rightarrow> Inl NameError
                      | Some lev \<Rightarrow> Inr (loc', Some (on ! 0, lev))))))"

subsection \<open>Saving and loading\<close>

text \<open>
  The files a spectrum is written to. Of an HDF5 file only the two datasets
  \<^verbatim>\<open>load_spectrum\<close> reads are kept, each present or not.
\<close>

datatype spectrum_file =
  HDF5 "real list option" "fl list option"
  | FITS "real list" "fl list"
  | ASCII "real list" "fl list"

type_synonym files = "string \<rightharpoonup> spectrum_file"

text \<open>
  Modelled from the spec: the three writers \<^verbatim>\<open>_write_spectrum_hdf5\<close>,
  \<^verbatim>\<open>_write_spectrum_fits\<close> and \<^verbatim>\<open>_write_spectrum_ascii\<close> are inherited from the
  parent class and not in the file. By the specification the binary form holds two named
  arrays, wavelength and flux, and each format holds the (wavelength, flux) pair.
\<close>

definition write_spectrum_hdf5 :: "generator \<Rightarrow> files \<Rightarrow> string \<Rightarrow> files" where
  "write_spectrum_hdf5 self fs filename =
     fs(filename \<mapsto> HDF5 (Some (lambda_bins self)) (Some (flux_field self)))"

definition write_spectrum_fits :: "generator \<Rightarrow> files \<Rightarrow> string \<Rightarrow> files" where
  "write_spectrum_fits self fs filename =
     fs(filename \<mapsto> FITS (lambda_bins self) (flux_field self))"

definition write_spectrum_ascii :: "generator \<Rightarrow> files \<Rightarrow> string \<Rightarrow> files" where
  "write_spectrum_ascii self fs filename =
     fs(filename \<mapsto> ASCII (lambda_bins self) (flux_field self))"

definition endswith :: "string \<Rightarrow> string \<Rightarrow> bool" where
  "endswith s suf = (length suf \<le> length s \<and> drop (length s - length suf) s = suf)"

definition invalid_format_warning :: string where
  "invalid_format_warning =
     ''Invalid format.  Must be 'HDF5', 'FITS', 'ASCII'. Defaulting to ASCII.''"

text \<open>
  Lines 456-478: \<^verbatim>\<open>save_spectrum\<close>. The result is the files after the call and the
  warnings logged by it.
\<close>

definition save_spectrum ::
  "generator \<Rightarrow> files \<Rightarrow> string \<Rightarrow> string option \<Rightarrow> files \<times> string list" where
  "save_spectrum self fs filename format =
     (case format of
        None \<Rightarrow>
          if endswith filename ''.h5'' then (write_spectrum_hdf5 self fs filename, [])
          else if endswith filename ''.fits'' then (write_spectrum_fits self fs filename, [])
          else (write_spectrum_ascii self fs filename, [])
      | Some f \<Rightarrow>
          if f = ''HDF5'' then (write_spectrum_hdf5 self fs filename, [])
          else if f = ''FITS'' then (write_spectrum_fits self fs filename, [])
          else if f = ''ASCII'' then (write_spectrum_ascii self fs filename, [])
          else (write_spectrum_ascii self fs filename, [invalid_format_warning]))"

text \<open>
  Lines 367-383: \<^verbatim>\<open>load_spectrum\<close>. With the default \<^verbatim>\<open>filename=None\<close> the call
  \<^verbatim>\<open>filename.endswith\<close> raises \<^verbatim>\<open>AttributeError\<close>; a missing file or one that is
  not HDF5 raises \<^verbatim>\<open>IOError\<close> when opened, a missing dataset \<^verbatim>\<open>KeyError\<close>.
\<close>

definition load_spectrum :: "files \<Rightarrow> generator \<Rightarrow> string option \<Rightarrow> error + generator" where
  "load_spectrum fs self filename =
     (case filename of
        None \<Rightarrow> Inl AttributeError
      | Some fn \<Rightarrow>
          if \<not> endswith fn ''.h5'' then Inl RuntimeError
          else (case fs fn of
                  None \<Rightarrow> Inl IOError
                | Some (HDF5 w f) \<Rightarrow>
                    (case w of
                       None \<Rightarrow> Inl KeyError
                     | Some wl \<Rightarrow>
                         (case f of
                            None \<Rightarrow> Inl KeyError
                          | Some fl \<Rightarrow> Inr (self\<lparr>lambda_bins := wl, flux_field := fl\<rparr>)))
                | Some _ \<Rightarrow> Inl IOError))"

section \<open>Properties\<close>

subsection \<open>Instrument resolution\<close>

lemma valid_instruments_COS:
  "valid_instruments ''COS'' =
     Some (Instrument (Some 1150) (Some 1450) None (Some (1 / 100))
             (Some ''avg_COS.txt'') (Some ''COS''))"
  by (simp add: valid_instruments_def valid_instruments_items_def)

lemma valid_instruments_dom:
  "valid_instruments s \<noteq> None \<longleftrightarrow> s \<in> {''COS'', ''HIRES'', ''UVES'', ''MODS'', ''SDSS''}"
  by (simp add: valid_instruments_def valid_instruments_items_def)

text \<open>
  C9 (the claim: \<^verbatim>\<open>set_instrument\<close> with the preset name COS establishes the
  generator's wavelength grid from 1150 to 1450 Angstrom at 0.01 Angstrom, and fails for
  an unrecognised name). What the method does: for each of the five preset names it
  stores the preset as \<^verbatim>\<open>self.instrument\<close>, and for every other string it raises
  \<^verbatim>\<open>RuntimeError\<close>, the source's exception for what the specification calls a
  configuration error. It assigns nothing else: a generator built for the custom range 1200
  to 1400 Angstrom with three bins still has the bins 1200, 1300 and 1400 after
  \<^verbatim>\<open>set_instrument\<close> with COS, although its instrument is then the one of 1150 to
  1450 Angstrom. The docstring of the method says that it sets the range of wavelengths
  and the bin size of the output spectrum; only the constructor, which passes the
  instrument's range on to its parent class, does.
\<close>

theorem set_instrument_leaves_lambda_bins:
  "set_instrument self (Name s) =
     (if s \<in> {''COS'', ''HIRES'', ''UVES'', ''MODS'', ''SDSS''}
      then Inr (self\<lparr>instrument := valid_instruments s\<rparr>)
      else Inl RuntimeError)
   \<and> set_instrument
         \<lparr>instrument = Some (Instrument (Some 1200) (Some 1400) (Some 3) None None
                               (Some ''Custom'')),
          lambda_bins = [1200, 1300, 1400], flux_field = [Some 1, Some 1, Some 1]\<rparr>
         (Name ''COS'')
       = Inr \<lparr>instrument = Some \<lparr>lambda_min = Some 1150, lambda_max = Some 1450,
                  n_lambda = None, dlambda = Some (1 / 100),
                  lsf_kernel = Some ''avg_COS.txt'', name = Some ''COS''\<rparr>,
              lambda_bins = [1200, 1300, 1400], flux_field = [Some 1, Some 1, Some 1]\<rparr>"
  by (auto simp add: set_instrument_def valid_instruments_def valid_instruments_items_def
      Instrument_def)

text \<open>
  C4 (as stated: constructing the generator with neither an instrument nor
  \<^verbatim>\<open>lambda_min\<close> raises a configuration error). The constructor does not raise
  there: it takes the preset COS, even with a constructor of custom instruments that
  rejects everything.
\<close>

theorem init_default_counterexample:
  "init_instrument (\<lambda>a. Inl RuntimeError) \<lparr>instrument = None, lambda_bins = [], flux_field = []\<rparr>
     None None None None None None
   = Inr \<lparr>instrument = Some \<lparr>lambda_min = Some 1150, lambda_max = Some 1450,
            n_lambda = None, dlambda = Some (1 / 100),
            lsf_kernel = Some ''avg_COS.txt'', name = Some ''COS''\<rparr>,
          lambda_bins = [], flux_field = []\<rparr>"
  by (simp add: init_instrument_def set_instrument_def valid_instruments_def
      valid_instruments_items_def Instrument_def)

text \<open>
  C4 (amended). With neither an instrument nor \<^verbatim>\<open>lambda_min\<close> the constructor
  installs the preset COS. The resolution fails with \<^verbatim>\<open>RuntimeError\<close> for a string that
  is no preset name and for a value that is neither a string nor an instrument; for a
  custom range (no instrument, a \<^verbatim>\<open>lambda_min\<close>) it fails with whatever the
  constructor of \<^verbatim>\<open>Instrument\<close> raises on the given arguments.
\<close>

theorem init_instrument_resolution:
  "init_instrument ctor self None None lmax n d k =
     Inr (self\<lparr>instrument := valid_instruments ''COS''\<rparr>)
   \<and> (valid_instruments s = None \<longrightarrow>
        init_instrument ctor self (Some (Name s)) lmin lmax n d k = Inl RuntimeError)
   \<and> init_instrument ctor self (Some Other) lmin lmax n d k = Inl RuntimeError
   \<and> (ctor (Instrument (Some a) lmax n d k (Some ''Custom'')) = Inl e \<longrightarrow>
        init_instrument ctor self None (Some a) lmax n d k = Inl e)"
  by (simp add: init_instrument_def set_instrument_def valid_instruments_COS)

theorem init_instrument_resolution_witness:
  "valid_instruments ''bogus'' = None
   \<and> init_instrument (\<lambda>a. Inl ValueError) \<lparr>instrument = None, lambda_bins = [], flux_field = []\<rparr>
        (Some (Name ''bogus'')) None None None None None = Inl RuntimeError
   \<and> (\<lambda>a. Inl ValueError) (Instrument (Some 1) None None None None (Some ''Custom'')) = (Inl ValueError :: error + instrument)
   \<and> init_instrument (\<lambda>a. Inl ValueError) \<lparr>instrument = None, lambda_bins = [], flux_field = []\<rparr>
        None (Some 1) None None None None = Inl ValueError"
  using init_instrument_resolution [of "\<lambda>a. Inl ValueError"
      "\<lparr>instrument = None, lambda_bins = [], flux_field = []\<rparr>" None None None None
      "''bogus''" None 1 ValueError]
  by (simp add: valid_instruments_def valid_instruments_items_def)

subsection \<open>Saving and loading\<close>

text \<open>
  C10. An explicit format other than HDF5, FITS and ASCII logs the warning and calls the
  ASCII writer, and nothing is raised; each of the three recognised formats calls its own
  writer whatever the file name ends in.
\<close>

theorem save_spectrum_format:
  "(f \<noteq> ''HDF5'' \<and> f \<noteq> ''FITS'' \<and> f \<noteq> ''ASCII'' \<longrightarrow>
      save_spectrum self fs filename (Some f) =
        (write_spectrum_ascii self fs filename, [invalid_format_warning]))
   \<and> save_spectrum self fs filename (Some ''HDF5'') = (write_spectrum_hdf5 self fs filename, [])
   \<and> save_spectrum self fs filename (Some ''FITS'') = (write_spectrum_fits self fs filename, [])
   \<and> save_spectrum self fs filename (Some ''ASCII'') = (write_spectrum_ascii self fs filename, [])"
  by (simp add: save_spectrum_def)

theorem save_spectrum_format_witness:
  "''csv'' \<noteq> ''HDF5'' \<and> ''csv'' \<noteq> ''FITS'' \<and> ''csv'' \<noteq> ''ASCII''
   \<and> save_spectrum \<lparr>instrument = None, lambda_bins = [1, 2], flux_field = [Some 1, Some 0]\<rparr>
        Map.empty ''x.h5'' (Some ''csv'') =
      ([''x.h5'' \<mapsto> ASCII [1, 2] [Some 1, Some 0]], [invalid_format_warning])
   \<and> save_spectrum \<lparr>instrument = None, lambda_bins = [1, 2], flux_field = [Some 1, Some 0]\<rparr>
        Map.empty ''x.h5'' (Some ''FITS'') =
      ([''x.h5'' \<mapsto> FITS [1, 2] [Some 1, Some 0]], [])"
  using save_spectrum_format [of "''csv''"
      "\<lparr>instrument = None, lambda_bins = [1, 2], flux_field = [Some 1, Some 0]\<rparr>"
      Map.empty "''x.h5''"]
  by (simp add: write_spectrum_ascii_def write_spectrum_fits_def)

text \<open>
  C7. Saving a spectrum in the binary format (no format given, or HDF5) under a name that
  ends in .h5 and loading that file gives back the wavelength array and the flux array of
  the saved spectrum, whatever the loading generator held before.
\<close>

theorem save_load_roundtrip:
  "endswith filename ''.h5'' \<Longrightarrow> format = None \<or> format = Some ''HDF5'' \<Longrightarrow>
     load_spectrum (fst (save_spectrum s fs filename format)) self (Some filename) =
       Inr (self\<lparr>lambda_bins := lambda_bins s, flux_field := flux_field s\<rparr>)"
  by (auto simp add: save_spectrum_def load_spectrum_def write_spectrum_hdf5_def)

theorem save_load_roundtrip_witness:
  "endswith ''x.h5'' ''.h5''
   \<and> load_spectrum
        (fst (save_spectrum \<lparr>instrument = None, lambda_bins = [1150, 1151], flux_field = [Some 1, None]\<rparr>
                Map.empty ''x.h5'' None))
        \<lparr>instrument = None, lambda_bins = [], flux_field = []\<rparr> (Some ''x.h5'') =
      Inr \<lparr>instrument = None, lambda_bins = [1150, 1151], flux_field = [Some 1, None]\<rparr>"
proof -
  have h: "endswith ''x.h5'' ''.h5''" by (simp add: endswith_def)
  show ?thesis
    using h save_load_roundtrip [OF h, of None
        "\<lparr>instrument = None, lambda_bins = [1150, 1151], flux_field = [Some 1, None]\<rparr>"
        Map.empty "\<lparr>instrument = None, lambda_bins = [], flux_field = []\<rparr>"]
    by simp
qed

subsection \<open>Seeded noise\<close>

text \<open>
  C5. With a seed given, the outcome of \<^verbatim>\<open>add_gaussian_noise\<close> (the exception, or
  the generator and the output array) is the same in any two worlds, that is, whatever
  the state of numpy's generator before the call and whatever the operating system would
  supply as entropy: two calls with the same signal-to-noise ratio, seed, number of bins
  and input array produce the same output.
\<close>

theorem seeded_noise_reproducible:
  "map_sum id snd (add_gaussian_noise seed_state gauss w1 self snr n_bins out (Some seed)) =
   map_sum id snd (add_gaussian_noise seed_state gauss w2 self snr n_bins out (Some seed))"
  by (simp add: add_gaussian_noise_def random_seed_def split: prod.splits sum.splits)

text \<open>Without a seed the output follows the entropy of the operating system.\<close>

lemma unseeded_noise_depends_on_entropy:
  "map_sum id snd (add_gaussian_noise (\<lambda>s. s) (\<lambda>g. (real_of_int g, g + 1))
       \<lparr>rng_state = 0, os_entropy = 1\<rparr>
       \<lparr>instrument = None, lambda_bins = [1], flux_field = [Some 1]\<rparr> 1 None None None)
   \<noteq> map_sum id snd (add_gaussian_noise (\<lambda>s. s) (\<lambda>g. (real_of_int g, g + 1))
       \<lparr>rng_state = 0, os_entropy = 2\<rparr>
       \<lparr>instrument = None, lambda_bins = [1], flux_field = [Some 1]\<rparr> 1 None None None)"
  by (simp add: add_gaussian_noise_def random_seed_def resolve_n_bins_def inplace_def
      target_of_def store_target_def fadd_def)

subsection \<open>Template interpolation\<close>

lemma digitize_length: "digitize xs bins = Inr ix \<Longrightarrow> length ix = length xs"
  by (auto simp add: digitize_def split: if_splits)

lemma interpolate_length: "interpolate lam flux bins = Inr ys \<Longrightarrow> length ys = length bins"
  by (auto simp add: interpolate_def dest: digitize_length split: sum.splits)

lemma interpolate_returns:
  "sorted lam \<or> sorted (rev lam) \<Longrightarrow> \<exists>ys. interpolate lam flux bins = Inr ys"
  by (auto simp add: interpolate_def digitize_def)

lemma get_milky_way_foreground_returns:
  assumes "tabs (case filename of None \<Rightarrow> mw_default | Some f \<Rightarrow> f) = Some rows"
    and "2 \<le> length rows"
    and "sorted (map fst rows) \<or> sorted (rev (map fst rows))"
  shows "\<exists>ys. get_milky_way_foreground tabs self filename = Inr ys"
proof -
  from assms(3) obtain my_flux where
    "interpolate (map fst rows) (map snd rows) (lambda_bins self) = Inr my_flux"
    using interpolate_returns by blast
  with assms(1,2) show ?thesis
    by (simp add: get_milky_way_foreground_def loadtxt_columns_def)
qed

text \<open>
  C1 (as stated: flux 1.0 for every target wavelength greater than or equal to 1799.9444).
  The source compares with \<^verbatim>\<open>>\<close>: a bin at exactly 1799.9444 keeps the interpolated
  value, here 2 from a template that is 2 everywhere.
\<close>

theorem milky_way_counterexample:
  "get_milky_way_foreground [''t'' \<mapsto> [(1000, 2), (2000, 2)]]
     \<lparr>instrument = None, lambda_bins = [17999444 / 10000], flux_field = [Some 1]\<rparr> (Some ''t'')
   = Inr [Some 2]"
  by (simp add: get_milky_way_foreground_def loadtxt_columns_def interpolate_def digitize_def
      clip_def fdiv_def fmul_def fadd_def)

text \<open>
  C1 (amended). Whenever \<^verbatim>\<open>_get_milky_way_foreground\<close> returns, its result has one
  entry for each bin, and the entry is exactly 1.0 at every bin whose wavelength is
  strictly greater than 1799.9444.
\<close>

theorem milky_way_beyond_bound:
  assumes "get_milky_way_foreground tabs self filename = Inr ys"
  shows "length ys = length (lambda_bins self)
    \<and> (\<forall>i < length ys. lambda_bins self ! i > 17999444 / 10000 \<longrightarrow> ys ! i = Some 1)"
proof -
  from assms obtain lam fx my_flux where
    i: "interpolate lam fx (lambda_bins self) = Inr my_flux" and
    ys: "ys = map (\<lambda>(x, f). if x > 17999444 / 10000 then Some 1 else f)
              (zip (lambda_bins self) my_flux)"
    by (auto simp add: get_milky_way_foreground_def split: sum.splits prod.splits)
  from i have len: "length my_flux = length (lambda_bins self)"
    by (rule interpolate_length)
  show ?thesis
    using len by (simp add: ys)
qed

theorem milky_way_beyond_bound_witness:
  "get_milky_way_foreground [''t'' \<mapsto> [(1000, 2), (2000, 2)]]
     \<lparr>instrument = None, lambda_bins = [1500, 1800, 3000], flux_field = []\<rparr> (Some ''t'')
     = Inr [Some 2, Some 1, Some 1]
   \<and> length [Some 2, Some 1, Some (1::real)] = length [1500, 1800, 3000 :: real]
   \<and> [1500, 1800, 3000 :: real] ! 1 > 17999444 / 10000
   \<and> [Some 2, Some 1, Some (1::real)] ! 1 = Some 1"
proof -
  have h: "get_milky_way_foreground [''t'' \<mapsto> [(1000, 2), (2000, 2)]]
     \<lparr>instrument = None, lambda_bins = [1500, 1800, 3000], flux_field = []\<rparr> (Some ''t'')
     = Inr [Some 2, Some 1, Some 1]"
    by (simp add: get_milky_way_foreground_def loadtxt_columns_def interpolate_def digitize_def
      clip_def fdiv_def fmul_def fadd_def)
  show ?thesis
    using h milky_way_beyond_bound [OF h] by simp
qed

subsection \<open>The line spread function\<close>

lemma length_convolve_full: "length (convolve_full a v) = length a + length v - 1"
  by (simp add: convolve_full_def)

lemma length_same_window:
  assumes "0 < length v"
  shows "length (take (length a) (drop ((length v - 1) div 2) (convolve_full a v))) = length a"
proof -
  have "(length v - 1) div 2 \<le> length v - 1" by simp
  with assms have "length a + (length v - 1) div 2 \<le> length a + length v - 1" by linarith
  then show ?thesis by (simp add: length_convolve_full)
qed

lemma convolve_same_length:
  assumes "convolve_same a v = Inr r"
  shows "length r = max (length a) (length v)"
proof -
  from assms have pos: "0 < length a" "0 < length v"
    by (auto simp add: convolve_same_def split: if_splits)
  show ?thesis
  proof (cases "length a < length v")
    case True
    with assms pos have "r = take (length v) (drop ((length a - 1) div 2) (convolve_full v a))"
      by (auto simp add: convolve_same_def)
    with True show ?thesis
      using length_same_window [OF pos(1), of v] by simp
  next
    case False
    with assms pos have "r = take (length a) (drop ((length v - 1) div 2) (convolve_full a v))"
      by (auto simp add: convolve_same_def)
    with False show ?thesis
      using length_same_window [OF pos(2), of a] by simp
  qed
qed

lemma convolve_same_returns:
  "a \<noteq> [] \<Longrightarrow> v \<noteq> [] \<Longrightarrow> \<exists>r. convolve_same a v = Inr r"
  by (simp add: convolve_same_def)

text \<open>
  C2 (as stated: the convolved flux field has the length of the input, for every kernel).
  A kernel file of three equal weights on a flux field of two bins gives a flux field of
  three entries: mode same of \<^verbatim>\<open>np.convolve\<close> returns the length of the longer
  argument.
\<close>

theorem apply_lsf_length_counterexample:
  "apply_lsf (\<lambda>f w n. Inr [Some (1 / 3), Some (1 / 3), Some (1 / 3)])
     \<lparr>instrument = None, lambda_bins = [1150, 1450], flux_field = [Some 1, Some 1]\<rparr>
     None None (Some ''kernel.txt'')
   = Inr \<lparr>instrument = None, lambda_bins = [1150, 1450],
          flux_field = [Some (1 / 3), Some (2 / 3), Some (2 / 3)]\<rparr>"
  by (simp add: apply_lsf_def select_lsf_def convolve_same_def convolve_full_def fsum_def
      fmul_def fadd_def upt_rec [of _ "numeral _"] upt_rec [of 0 "Suc _"])

text \<open>
  C2 (amended). With a non-empty kernel and a non-empty flux field \<^verbatim>\<open>apply_lsf\<close>
  returns, and the new flux field has the length of the longer of the two; so it has the
  length of the input flux field whenever the kernel is no longer than the flux field.
\<close>

theorem apply_lsf_length:
  assumes "select_lsf LSF self function width filename = Inr k"
    and "k \<noteq> []" and "flux_field self \<noteq> []"
  shows "\<exists>self'. apply_lsf LSF self function width filename = Inr self'
    \<and> length (flux_field self') = max (length k) (length (flux_field self))
    \<and> (length k \<le> length (flux_field self) \<longrightarrow>
         length (flux_field self') = length (flux_field self))"
proof -
  from assms(2,3) obtain r where r: "convolve_same k (flux_field self) = Inr r"
    using convolve_same_returns by blast
  then have "length r = max (length k) (length (flux_field self))"
    by (rule convolve_same_length)
  with r assms(1) show ?thesis
    by (auto simp add: apply_lsf_def)
qed


theorem apply_lsf_length_witness:
  "select_lsf (\<lambda>f w n. Inr [Some (1 / 4), Some (1 / 2), Some (1 / 4)])
     \<lparr>instrument = None, lambda_bins = [1, 2, 3, 4], flux_field = [Some 1, Some 1, Some 0, Some 1]\<rparr>
     None None (Some ''k.txt'') = Inr [Some (1 / 4), Some (1 / 2), Some (1 / 4)]
   \<and> (\<exists>self'. apply_lsf (\<lambda>f w n. Inr [Some (1 / 4), Some (1 / 2), Some (1 / 4)])
         \<lparr>instrument = None, lambda_bins = [1, 2, 3, 4],
           flux_field = [Some 1, Some 1, Some 0, Some 1]\<rparr> None None (Some ''k.txt'') = Inr self'
       \<and> length (flux_field self') = length [Some 1, Some 1, Some 0, Some (1::real)])"
proof -
  have h: "select_lsf (\<lambda>f w n. Inr [Some (1 / 4), Some (1 / 2), Some (1 / 4)])
     \<lparr>instrument = None, lambda_bins = [1, 2, 3, 4], flux_field = [Some 1, Some 1, Some 0, Some 1]\<rparr>
     None None (Some ''k.txt'') = Inr [Some (1 / 4), Some (1 / 2), Some (1 / 4)]"
    by (simp add: select_lsf_def)
  show ?thesis
    using h apply_lsf_length [OF h] by simp
qed

subsection \<open>Non-negative flux\<close>

lemma fsum_nonneg_aux:
  "list_all (\<lambda>v. case v of None \<Rightarrow> False | Some x \<Rightarrow> 0 \<le> x) xs \<Longrightarrow> 0 \<le> a \<Longrightarrow>
     \<exists>s. foldl fadd (Some a) xs = Some s \<and> 0 \<le> s"
proof (induction xs arbitrary: a)
  case Nil
  then show ?case by simp
next
  case (Cons x xs)
  from Cons.prems obtain y where y: "x = Some y" "0 \<le> y"
    by (cases x) auto
  from Cons.prems have "list_all (\<lambda>v. case v of None \<Rightarrow> False | Some x \<Rightarrow> 0 \<le> x) xs"
    by simp
  from Cons.IH [OF this, of "a + y"] y Cons.prems(2) show ?case
    by (simp add: fadd_def)
qed

lemma fsum_nonneg:
  "nonneg_flux xs \<Longrightarrow> \<exists>s. fsum xs = Some s \<and> 0 \<le> s"
  unfolding nonneg_flux_def fsum_def by (rule fsum_nonneg_aux) simp_all

lemma nonneg_nth: "nonneg_flux xs \<Longrightarrow> i < length xs \<Longrightarrow> \<exists>x. xs ! i = Some x \<and> 0 \<le> x"
  by (auto simp add: nonneg_flux_def list_all_length split: option.splits)

lemma convolve_full_nonneg:
  assumes "nonneg_flux a" and "nonneg_flux v"
  shows "nonneg_flux (convolve_full a v)"
proof -
  have "nonneg_flux (map (\<lambda>m. fmul (a ! (k - m)) (v ! m))
          (filter (\<lambda>m. m \<le> k \<and> k - m < length a) [0..<length v]))" for k
    unfolding nonneg_flux_def list_all_iff
  proof (clarsimp)
    fix m assume "m < length v" "m \<le> k" "k - m < length a"
    with assms obtain x y where "a ! (k - m) = Some x" "0 \<le> x" "v ! m = Some y" "0 \<le> y"
      using nonneg_nth by blast
    then show "case fmul (a ! (k - m)) (v ! m) of None \<Rightarrow> False | Some x \<Rightarrow> 0 \<le> x"
      by (simp add: fmul_def)
  qed
  then have "\<exists>s. fsum (map (\<lambda>m. fmul (a ! (k - m)) (v ! m))
          (filter (\<lambda>m. m \<le> k \<and> k - m < length a) [0..<length v])) = Some s \<and> 0 \<le> s" for k
    by (rule fsum_nonneg)
  then have "case fsum (map (\<lambda>m. fmul (a ! (k - m)) (v ! m))
          (filter (\<lambda>m. m \<le> k \<and> k - m < length a) [0..<length v])) of
            None \<Rightarrow> False | Some x \<Rightarrow> 0 \<le> x" for k
    by (metis option.simps(5))
  then show ?thesis
    by (simp add: convolve_full_def nonneg_flux_def list_all_iff)
qed

lemma nonneg_take_drop: "nonneg_flux xs \<Longrightarrow> nonneg_flux (take n (drop k xs))"
  by (auto simp add: nonneg_flux_def list_all_iff dest: in_set_takeD in_set_dropD)

lemma convolve_same_nonneg:
  "convolve_same a v = Inr r \<Longrightarrow> nonneg_flux a \<Longrightarrow> nonneg_flux v \<Longrightarrow> nonneg_flux r"
  by (auto simp add: convolve_same_def convolve_full_nonneg nonneg_take_drop split: if_splits)

lemma inplace_fmul_nonneg:
  assumes "inplace fmul a b = Inr r" and "nonneg_flux a" and "nonneg_flux b"
  shows "nonneg_flux r"
proof (cases "length b = length a")
  case True
  with assms(1) have r: "r = map (\<lambda>(x, y). fmul x y) (zip a b)"
    by (simp add: inplace_def)
  show ?thesis
    unfolding r nonneg_flux_def list_all_length
  proof (clarsimp)
    fix i assume "i < length a" "i < length b"
    with assms(2,3) obtain x y where "a ! i = Some x" "0 \<le> x" "b ! i = Some y" "0 \<le> y"
      using nonneg_nth by blast
    then show "case fmul (a ! i) (b ! i) of None \<Rightarrow> False | Some x \<Rightarrow> 0 \<le> x"
      by (simp add: fmul_def)
  qed
next
  case False
  with assms(1) have one: "length b = 1" and r: "r = map (\<lambda>x. fmul x (hd b)) a"
    by (auto simp add: inplace_def split: if_splits)
  from one have "b \<noteq> []" by auto
  with one assms(3) obtain y where y: "hd b = Some y" "0 \<le> y"
    using nonneg_nth [of b 0] by (auto simp add: hd_conv_nth)
  show ?thesis
    unfolding r nonneg_flux_def list_all_length
  proof (clarsimp)
    fix i assume "i < length a"
    with assms(2) obtain x where "a ! i = Some x" "0 \<le> x"
      using nonneg_nth by blast
    with y show "case fmul (a ! i) (hd b) of None \<Rightarrow> False | Some x \<Rightarrow> 0 \<le> x"
      by (simp add: fmul_def)
  qed
qed

lemma inplace_fadd_nonneg:
  assumes "inplace fadd a b = Inr r" and "nonneg_flux a" and "nonneg_flux b"
  shows "nonneg_flux r"
proof (cases "length b = length a")
  case True
  with assms(1) have r: "r = map (\<lambda>(x, y). fadd x y) (zip a b)"
    by (simp add: inplace_def)
  show ?thesis
    unfolding r nonneg_flux_def list_all_length
  proof (clarsimp)
    fix i assume "i < length a" "i < length b"
    with assms(2,3) obtain x y where "a ! i = Some x" "0 \<le> x" "b ! i = Some y" "0 \<le> y"
      using nonneg_nth by blast
    then show "case fadd (a ! i) (b ! i) of None \<Rightarrow> False | Some x \<Rightarrow> 0 \<le> x"
      by (simp add: fadd_def)
  qed
next
  case False
  with assms(1) have one: "length b = 1" and r: "r = map (\<lambda>x. fadd x (hd b)) a"
    by (auto simp add: inplace_def split: if_splits)
  from one have "b \<noteq> []" by auto
  with one assms(3) obtain y where y: "hd b = Some y" "0 \<le> y"
    using nonneg_nth [of b 0] by (auto simp add: hd_conv_nth)
  show ?thesis
    unfolding r nonneg_flux_def list_all_length
  proof (clarsimp)
    fix i assume "i < length a"
    with assms(2) obtain x where "a ! i = Some x" "0 \<le> x"
      using nonneg_nth by blast
    with y show "case fadd (a ! i) (hd b) of None \<Rightarrow> False | Some x \<Rightarrow> 0 \<le> x"
      by (simp add: fadd_def)
  qed
qed


lemma store_target_snd: "snd (store_target self arg r) = r"
  by (simp add: store_target_def split: option.splits)

lemma add_qso_spectrum_nonneg:
  assumes "nonneg_flux (target_of self arg)"
    and "get_qso_spectrum tabs self z fn = Inr curve" and "nonneg_flux curve"
    and "add_qso_spectrum tabs self arg z fn = Inr (s1, out1)"
  shows "nonneg_flux out1"
proof -
  from assms(2,4) obtain r where r: "inplace fmul (target_of self arg) curve = Inr r"
    and "store_target self arg r = (s1, out1)"
    by (auto simp add: add_qso_spectrum_def split: sum.splits)
  then have "out1 = r" using store_target_snd [of self arg r] by simp
  with r assms(1,3) show ?thesis by (simp add: inplace_fmul_nonneg)
qed

lemma add_milky_way_foreground_nonneg:
  assumes "nonneg_flux (target_of self arg)"
    and "get_milky_way_foreground tabs self fn = Inr curve" and "nonneg_flux curve"
    and "add_milky_way_foreground tabs self arg fn = Inr (s1, out1)"
  shows "nonneg_flux out1"
proof -
  from assms(2,4) obtain r where r: "inplace fmul (target_of self arg) curve = Inr r"
    and "store_target self arg r = (s1, out1)"
    by (auto simp add: add_milky_way_foreground_def split: sum.splits)
  then have "out1 = r" using store_target_snd [of self arg r] by simp
  with r assms(1,3) show ?thesis by (simp add: inplace_fmul_nonneg)
qed

lemma apply_lsf_nonneg:
  assumes "nonneg_flux (flux_field self)"
    and "select_lsf LSF self fu wd kf = Inr k" and "nonneg_flux k"
    and "apply_lsf LSF self fu wd kf = Inr s3"
  shows "nonneg_flux (flux_field s3)"
proof -
  from assms(2,4) obtain r where r: "convolve_same k (flux_field self) = Inr r"
    and "s3 = self\<lparr>flux_field := r\<rparr>"
    by (auto simp add: apply_lsf_def split: sum.splits)
  with assms(1,3) show ?thesis by (simp add: convolve_same_nonneg)
qed

lemma add_gaussian_noise_nonneg:
  assumes "nonneg_flux (target_of self arg)"
    and "random_seed seed_state w seed = Inr w1"
    and "nonneg_flux (map Some (fst (normal_draws gauss 0 (1 / snr)
           (nat (resolve_n_bins self nb)) (rng_state w1))))"
    and "add_gaussian_noise seed_state gauss w self snr nb arg seed = Inr (w2, s4, out4)"
  shows "nonneg_flux out4"
proof -
  obtain noise g2 where d: "normal_draws gauss 0 (1 / snr)
           (nat (resolve_n_bins self nb)) (rng_state w1) = (noise, g2)"
    by (cases "normal_draws gauss 0 (1 / snr) (nat (resolve_n_bins self nb)) (rng_state w1)")
  with assms(2,4) obtain r where r: "inplace fadd (target_of self arg) (map Some noise) = Inr r"
    and "store_target self arg r = (s4, out4)"
    by (auto simp add: add_gaussian_noise_def split: sum.splits if_splits prod.splits)
  then have "out4 = r" using store_target_snd [of self arg r] by simp
  with r d assms(1,3) show ?thesis by (simp add: inplace_fadd_nonneg)
qed

text \<open>
  C3 (as stated: every stage keeps a non-negative flux field non-negative). From the flux
  field \<open>[1]\<close>, each stage can produce \<open>[-1]\<close>: the template with rows (1, 1) and (2, 0)
  extrapolated to the bin at 3 is -1 (QSO and Milky Way alike); a kernel with the single
  weight -1; a generator whose deviate is -2, at a signal-to-noise ratio of 1.
\<close>

theorem stages_nonneg_counterexample:
  "nonneg_flux [Some 1]
   \<and> add_qso_spectrum [''t'' \<mapsto> [(1, 1), (2, 0)]]
        \<lparr>instrument = None, lambda_bins = [3], flux_field = [Some 1]\<rparr> None 0 (Some ''t'')
      = Inr (\<lparr>instrument = None, lambda_bins = [3], flux_field = [Some (- 1)]\<rparr>, [Some (- 1)])
   \<and> add_milky_way_foreground [''t'' \<mapsto> [(1, 1), (2, 0)]]
        \<lparr>instrument = None, lambda_bins = [3], flux_field = [Some 1]\<rparr> None (Some ''t'')
      = Inr (\<lparr>instrument = None, lambda_bins = [3], flux_field = [Some (- 1)]\<rparr>, [Some (- 1)])
   \<and> apply_lsf (\<lambda>f w n. Inr [Some (- 1)])
        \<lparr>instrument = None, lambda_bins = [3], flux_field = [Some 1]\<rparr> None None (Some ''k.txt'')
      = Inr \<lparr>instrument = None, lambda_bins = [3], flux_field = [Some (- 1)]\<rparr>
   \<and> add_gaussian_noise (\<lambda>s. s) (\<lambda>g. (- 2, g + 1)) \<lparr>rng_state = 0, os_entropy = 0\<rparr>
        \<lparr>instrument = None, lambda_bins = [3], flux_field = [Some 1]\<rparr> 1 None None (Some 42)
      = Inr (\<lparr>rng_state = 43, os_entropy = 0\<rparr>,
             \<lparr>instrument = None, lambda_bins = [3], flux_field = [Some (- 1)]\<rparr>, [Some (- 1)])
   \<and> \<not> nonneg_flux [Some (- 1)]"
  by (simp add: nonneg_flux_def add_qso_spectrum_def get_qso_spectrum_def
      add_milky_way_foreground_def get_milky_way_foreground_def loadtxt_columns_def
      interpolate_def digitize_def clip_def fdiv_def fmul_def fadd_def inplace_def
      store_target_def target_of_def apply_lsf_def select_lsf_def convolve_same_def
      convolve_full_def fsum_def add_gaussian_noise_def random_seed_def resolve_n_bins_def)

text \<open>
  C3 (amended). Each stage keeps a non-negative flux field non-negative when what it
  combines the flux with is non-negative too: the interpolated template for the QSO and
  the Milky Way multiplication, the kernel weights for the convolution, the noise drawn
  for the noise injection.
\<close>

theorem stages_preserve_nonneg:
  "(nonneg_flux (target_of self arg) \<and> get_qso_spectrum tabs self z fn = Inr qcurve
      \<and> nonneg_flux qcurve \<and> add_qso_spectrum tabs self arg z fn = Inr (sq, outq)
      \<longrightarrow> nonneg_flux outq)
   \<and> (nonneg_flux (target_of self arg) \<and> get_milky_way_foreground tabs self fn = Inr mcurve
      \<and> nonneg_flux mcurve \<and> add_milky_way_foreground tabs self arg fn = Inr (sm, outm)
      \<longrightarrow> nonneg_flux outm)
   \<and> (nonneg_flux (flux_field self) \<and> select_lsf LSF self fu wd kf = Inr k
      \<and> nonneg_flux k \<and> apply_lsf LSF self fu wd kf = Inr sl
      \<longrightarrow> nonneg_flux (flux_field sl))
   \<and> (nonneg_flux (target_of self arg) \<and> random_seed seed_state w seed = Inr ws
      \<and> nonneg_flux (map Some (fst (normal_draws gauss 0 (1 / snr)
           (nat (resolve_n_bins self nb)) (rng_state ws))))
      \<and> add_gaussian_noise seed_state gauss w self snr nb arg seed = Inr (wn, sn, outn)
      \<longrightarrow> nonneg_flux outn)"
proof (intro conjI impI)
  assume "nonneg_flux (target_of self arg) \<and> get_qso_spectrum tabs self z fn = Inr qcurve
      \<and> nonneg_flux qcurve \<and> add_qso_spectrum tabs self arg z fn = Inr (sq, outq)"
  then show "nonneg_flux outq"
    by (elim conjE) (erule (3) add_qso_spectrum_nonneg)
next
  assume "nonneg_flux (target_of self arg) \<and> get_milky_way_foreground tabs self fn = Inr mcurve
      \<and> nonneg_flux mcurve \<and> add_milky_way_foreground tabs self arg fn = Inr (sm, outm)"
  then show "nonneg_flux outm"
    by (elim conjE) (erule (3) add_milky_way_foreground_nonneg)
next
  assume "nonneg_flux (flux_field self) \<and> select_lsf LSF self fu wd kf = Inr k
      \<and> nonneg_flux k \<and> apply_lsf LSF self fu wd kf = Inr sl"
  then show "nonneg_flux (flux_field sl)"
    by (elim conjE) (erule (3) apply_lsf_nonneg)
next
  assume "nonneg_flux (target_of self arg) \<and> random_seed seed_state w seed = Inr ws
      \<and> nonneg_flux (map Some (fst (normal_draws gauss 0 (1 / snr)
           (nat (resolve_n_bins self nb)) (rng_state ws))))
      \<and> add_gaussian_noise seed_state gauss w self snr nb arg seed = Inr (wn, sn, outn)"
  then show "nonneg_flux outn"
    by (elim conjE) (erule (3) add_gaussian_noise_nonneg)
qed


theorem stages_preserve_nonneg_witness:
  "nonneg_flux (target_of \<lparr>instrument = None, lambda_bins = [1, 2], flux_field = [Some 1, Some (1 / 2)]\<rparr> None)
   \<and> get_qso_spectrum [''t'' \<mapsto> [(1, 1), (2, 3)]]
        \<lparr>instrument = None, lambda_bins = [1, 2], flux_field = [Some 1, Some (1 / 2)]\<rparr> 0 (Some ''t'')
      = Inr [Some 1, Some 3]
   \<and> get_milky_way_foreground [''t'' \<mapsto> [(1, 1), (2, 3)]]
        \<lparr>instrument = None, lambda_bins = [1, 2], flux_field = [Some 1, Some (1 / 2)]\<rparr> (Some ''t'')
      = Inr [Some 1, Some 3]
   \<and> nonneg_flux [Some 1, Some 3]
   \<and> add_qso_spectrum [''t'' \<mapsto> [(1, 1), (2, 3)]]
        \<lparr>instrument = None, lambda_bins = [1, 2], flux_field = [Some 1, Some (1 / 2)]\<rparr>
        None 0 (Some ''t'')
      = Inr (\<lparr>instrument = None, lambda_bins = [1, 2], flux_field = [Some 1, Some (3 / 2)]\<rparr>,
             [Some 1, Some (3 / 2)])
   \<and> add_milky_way_foreground [''t'' \<mapsto> [(1, 1), (2, 3)]]
        \<lparr>instrument = None, lambda_bins = [1, 2], flux_field = [Some 1, Some (1 / 2)]\<rparr>
        None (Some ''t'')
      = Inr (\<lparr>instrument = None, lambda_bins = [1, 2], flux_field = [Some 1, Some (3 / 2)]\<rparr>,
             [Some 1, Some (3 / 2)])
   \<and> nonneg_flux [Some 1, Some (3 / 2)]
   \<and> select_lsf (\<lambda>f w n. Inr [Some (1 / 2), Some (1 / 2)])
        \<lparr>instrument = None, lambda_bins = [1, 2], flux_field = [Some 1, Some (1 / 2)]\<rparr>
        None None (Some ''k.txt'')
      = Inr [Some (1 / 2), Some (1 / 2)]
   \<and> nonneg_flux [Some (1 / 2), Some (1 / 2)]
   \<and> apply_lsf (\<lambda>f w n. Inr [Some (1 / 2), Some (1 / 2)])
        \<lparr>instrument = None, lambda_bins = [1, 2], flux_field = [Some 1, Some (1 / 2)]\<rparr>
        None None (Some ''k.txt'')
      = Inr \<lparr>instrument = None, lambda_bins = [1, 2], flux_field = [Some (1 / 2), Some (3 / 4)]\<rparr>
   \<and> nonneg_flux [Some (1 / 2), Some (3 / 4)]
   \<and> random_seed (\<lambda>s. s) \<lparr>rng_state = 0, os_entropy = 0\<rparr> (Some 42)
      = Inr \<lparr>rng_state = 42, os_entropy = 0\<rparr>
   \<and> normal_draws (\<lambda>g. (1, g + 1)) 0 (1 / 2) 2 (42 :: int) = ([1 / 2, 1 / 2], 44)
   \<and> nonneg_flux (map Some [1 / 2, 1 / 2])
   \<and> add_gaussian_noise (\<lambda>s. s) (\<lambda>g. (1, g + 1)) \<lparr>rng_state = 0, os_entropy = 0\<rparr>
        \<lparr>instrument = None, lambda_bins = [1, 2], flux_field = [Some 1, Some (1 / 2)]\<rparr>
        2 None None (Some 42)
      = Inr (\<lparr>rng_state = 44, os_entropy = 0\<rparr>,
             \<lparr>instrument = None, lambda_bins = [1, 2], flux_field = [Some (3 / 2), Some 1]\<rparr>,
             [Some (3 / 2), Some 1])
   \<and> nonneg_flux [Some (3 / 2), Some 1]"
  using stages_preserve_nonneg [where self = "\<lparr>instrument = None, lambda_bins = [1, 2],
        flux_field = [Some 1, Some (1 / 2)]\<rparr>" and arg = None
      and tabs = "[''t'' \<mapsto> [(1, 1), (2, 3)]]" and z = 0 and fn = "Some ''t''"
      and qcurve = "[Some 1, Some 3]" and mcurve = "[Some 1, Some 3]"
      and sq = "\<lparr>instrument = None, lambda_bins = [1, 2], flux_field = [Some 1, Some (3 / 2)]\<rparr>"
      and outq = "[Some 1, Some (3 / 2)]"
      and sm = "\<lparr>instrument = None, lambda_bins = [1, 2], flux_field = [Some 1, Some (3 / 2)]\<rparr>"
      and outm = "[Some 1, Some (3 / 2)]"
      and LSF = "\<lambda>f w n. Inr [Some (1 / 2), Some (1 / 2)]" and fu = None and wd = None
      and kf = "Some ''k.txt''" and k = "[Some (1 / 2), Some (1 / 2)]"
      and sl = "\<lparr>instrument = None, lambda_bins = [1, 2], flux_field = [Some (1 / 2), Some (3 / 4)]\<rparr>"
      and seed_state = "\<lambda>s. s" and w = "\<lparr>rng_state = 0, os_entropy = 0\<rparr>" and seed = "Some 42"
      and ws = "\<lparr>rng_state = 42, os_entropy = 0\<rparr>" and gauss = "\<lambda>g. (1, g + 1)"
      and snr = 2 and nb = None and wn = "\<lparr>rng_state = 44, os_entropy = 0\<rparr>"
      and sn = "\<lparr>instrument = None, lambda_bins = [1, 2], flux_field = [Some (3 / 2), Some 1]\<rparr>"
      and outn = "[Some (3 / 2), Some 1]"]
  by (simp add: nonneg_flux_def add_qso_spectrum_def get_qso_spectrum_def
      add_milky_way_foreground_def get_milky_way_foreground_def loadtxt_columns_def
      interpolate_def digitize_def clip_def fdiv_def fmul_def fadd_def inplace_def
      store_target_def target_of_def apply_lsf_def select_lsf_def convolve_same_def
      convolve_full_def fsum_def add_gaussian_noise_def random_seed_def resolve_n_bins_def
      numeral_2_eq_2)

subsection \<open>Ion fields\<close>

lemma find_py_first:
  "p \<le> length s \<Longrightarrow> take (length sub) (drop p s) = sub \<Longrightarrow>
   (\<forall>q<p. take (length sub) (drop q s) \<noteq> sub) \<Longrightarrow> find_py s sub = int p"
proof (induction s arbitrary: p)
  case Nil
  then show ?case by auto
next
  case (Cons x xs)
  show ?case
  proof (cases p)
    case 0
    with Cons.prems show ?thesis by simp
  next
    case (Suc m)
    with Cons.prems(3) have no0: "take (length sub) (x # xs) \<noteq> sub" by force
    from Suc Cons.prems have "find_py xs sub = int m"
      by (intro Cons.IH) auto
    with no0 Suc show ?thesis by (simp add: Let_def)
  qed
qed

lemma first_sep_unique:
  "u @ c # v = p @ c # q \<Longrightarrow> c \<notin> set u \<Longrightarrow> c \<notin> set p \<Longrightarrow> u = p \<and> v = q"
proof (induction u arbitrary: p)
  case Nil
  then show ?case by (cases p) auto
next
  case (Cons a u)
  then show ?case by (cases p) auto
qed

lemma number_density_window:
  assumes m: "take 14 (u @ CHR ''_'' # v) = ''number_density''" and u: "CHR ''_'' \<notin> set u"
  shows "u = ''number'' \<and> take 7 v = ''density''"
proof (cases "length u < 14")
  case True
  then have "take 14 (u @ CHR ''_'' # v) = u @ CHR ''_'' # take (13 - length u) v"
    by (simp add: take_Cons')
  with m have eq: "u @ CHR ''_'' # take (13 - length u) v = ''number'' @ CHR ''_'' # ''density''"
    by simp
  have nn: "CHR ''_'' \<notin> set ''number''" by simp
  from first_sep_unique [OF eq u nn] have un: "u = ''number''"
    by (rule conjunct1)
  from first_sep_unique [OF eq u nn] have "take (13 - length u) v = ''density''"
    by (rule conjunct2)
  with un show ?thesis by simp
next
  case False
  then have "take 14 (u @ CHR ''_'' # v) = take 14 u" by simp
  with m have "take 14 u = ''number_density''" by simp
  moreover have "CHR ''_'' \<in> set ''number_density''" by simp
  ultimately have "CHR ''_'' \<in> set (take 14 u)" by (simp only:)
  then have "CHR ''_'' \<in> set u" by (rule in_set_takeD)
  with u show ?thesis by simp
qed

lemma split_py_no_sep: "c \<notin> set u \<Longrightarrow> split_py c u = [u]"
  by (induction u) auto

lemma split_py_at_sep: "c \<notin> set u \<Longrightarrow> split_py c (u @ c # v) = u # split_py c v"
  by (induction u) auto

lemma dropWhile_keeps_last: "\<not> P x \<Longrightarrow> \<exists>ys. dropWhile P (zs @ [x]) = ys @ [x]"
  by (induction zs) auto

lemma strip_keeps_head:
  assumes "\<not> is_space x"
  shows "\<exists>t. strip (x # r) = x # t"
proof -
  from assms have "dropWhile is_space (x # r) = x # r" by simp
  moreover from dropWhile_keeps_last [of is_space x "rev r"] assms
  obtain ys where "dropWhile is_space (rev r @ [x]) = ys @ [x]" by blast
  ultimately show ?thesis by (simp add: strip_def)
qed

lemma py_int_not_e: "py_int (CHR ''e'' # r) = Inl ValueError"
proof -
  have "\<not> is_space (CHR ''e'')" by (simp add: is_space_def)
  from strip_keeps_head [OF this, of r] obtain t where "strip (CHR ''e'' # r) = CHR ''e'' # t"
    by blast
  then show ?thesis by (simp add: py_int_def is_digit_def)
qed


lemma density_window:
  assumes "take 7 (s @ CHR ''_'' # v) = ''density''" and "CHR ''_'' \<notin> set s"
  shows "take 7 s = ''density''"
proof (cases "length s < 7")
  case True
  then have "take 7 (s @ CHR ''_'' # v) = s @ CHR ''_'' # take (6 - length s) v"
    by (simp add: take_Cons')
  with assms(1) have "s @ CHR ''_'' # take (6 - length s) v = ''density''" by simp
  then have "CHR ''_'' \<in> set ''density''"
    by (metis in_set_conv_decomp)
  then show ?thesis by simp
next
  case False
  with assms(1) show ?thesis by simp
qed

lemma length_number_density: "length ''number_density'' = 14"
  by simp

lemma find_number_density_suffix:
  assumes e: "CHR ''_'' \<notin> set e" and s: "CHR ''_'' \<notin> set s"
    and nd: "take 7 s \<noteq> ''density''"
  shows "find_py (e @ CHR ''_'' # s @ CHR ''_'' # ''number_density'') ''number_density''
         = int (length e + length s + 2)"
proof -
  let ?field = "e @ CHR ''_'' # s @ CHR ''_'' # ''number_density''"
  let ?n = "length ''number_density''"
  have no: "\<forall>q < length e + length s + 2. take ?n (drop q ?field) \<noteq> ''number_density''"
  proof (intro allI impI notI)
    fix q
    assume q: "q < length e + length s + 2"
    assume "take ?n (drop q ?field) = ''number_density''"
    then have m: "take 14 (drop q ?field) = ''number_density''"
      unfolding length_number_density .
    show False
    proof (cases "q \<le> length e")
      case True
      then have d: "drop q ?field = drop q e @ CHR ''_'' # (s @ CHR ''_'' # ''number_density'')"
        by simp
      from e have ne: "CHR ''_'' \<notin> set (drop q e)" by (auto dest: in_set_dropD)
      from number_density_window [OF m [unfolded d] ne]
      have "take 7 (s @ CHR ''_'' # ''number_density'') = ''density''" by (rule conjunct2)
      from density_window [OF this s] nd show False by simp
    next
      case False
      with q have d: "drop q ?field = drop (q - length e - 1) s @ CHR ''_'' # ''number_density''"
        by (simp add: drop_Cons')
      from s have ns: "CHR ''_'' \<notin> set (drop (q - length e - 1) s)"
        by (auto dest: in_set_dropD)
      from number_density_window [OF m [unfolded d] ns]
      have "take 7 ''number_density'' = ''density''" by (rule conjunct2)
      then show False by simp
    qed
  qed
  have len: "length e + length s + 2 \<le> length ?field" by simp
  have hit: "take ?n (drop (length e + length s + 2) ?field) = ''number_density''" by simp
  from find_py_first [OF len hit no] show ?thesis .
qed

lemma find_number_density_plain:
  assumes e: "CHR ''_'' \<notin> set e"
  shows "find_py (e @ CHR ''_'' # ''number_density'') ''number_density'' = int (length e + 1)"
proof -
  let ?field = "e @ CHR ''_'' # ''number_density''"
  let ?n = "length ''number_density''"
  have no: "\<forall>q < length e + 1. take ?n (drop q ?field) \<noteq> ''number_density''"
  proof (intro allI impI notI)
    fix q
    assume q: "q < length e + 1"
    assume "take ?n (drop q ?field) = ''number_density''"
    then have m: "take 14 (drop q ?field) = ''number_density''"
      unfolding length_number_density .
    from q have d: "drop q ?field = drop q e @ CHR ''_'' # ''number_density''" by simp
    from e have ne: "CHR ''_'' \<notin> set (drop q e)" by (auto dest: in_set_dropD)
    from number_density_window [OF m [unfolded d] ne]
    have "take 7 ''number_density'' = ''density''" by (rule conjunct2)
    then show False by simp
  qed
  have len: "length e + 1 \<le> length ?field" by simp
  have hit: "take ?n (drop (length e + 1) ?field) = ''number_density''" by simp
  from find_py_first [OF len hit no] show ?thesis .
qed

lemma py_int_excludes_density:
  assumes "py_int (tl s) = Inr n"
  shows "take 7 s \<noteq> ''density''"
proof
  assume t: "take 7 s = ''density''"
  then obtain a r where s: "s = a # r" by (cases s) auto
  with t have a: "a = CHR ''d''" and r: "take 6 r = ''ensity''" by (simp_all add: take_Cons')
  from r obtain b r' where r': "r = b # r'" by (cases r) auto
  with r have "b = CHR ''e''" by (simp add: take_Cons')
  with assms s r' show False by (simp add: py_int_not_e)
qed


lemma slice_to_int: "slice_to s (int p) = take p s"
  by (simp add: slice_to_def)

lemma parse_ion_field_suffix:
  assumes e: "CHR ''_'' \<notin> set e" and s: "CHR ''_'' \<notin> set s" and ne: "s \<noteq> []"
    and lev: "py_int (tl s) = Inr n"
  shows "parse_ion_field (e @ ''_'' @ s @ ''_number_density'') loc
         = Inr (loc\<lparr>on_ion := Some [e, s, []], my_lev := Some (n + 1)\<rparr>)"
proof -
  let ?field = "e @ CHR ''_'' # s @ CHR ''_'' # ''number_density''"
  from lev have "take 7 s \<noteq> ''density''" by (rule py_int_excludes_density)
  with e s have f: "find_py ?field ''number_density'' = int (length e + length s + 2)"
    by (rule find_number_density_suffix)
  have "slice_to ?field (int (length e + length s + 2)) = take (length e + length s + 2) ?field"
    by (rule slice_to_int)
  also have "\<dots> = e @ CHR ''_'' # s @ [CHR ''_'']"
    by simp
  finally have sl: "slice_to ?field (find_py ?field ''number_density'') = e @ CHR ''_'' # s @ [CHR ''_'']"
    by (simp only: f)
  have sp: "split_py (CHR ''_'') (e @ CHR ''_'' # s @ [CHR ''_'']) = [e, s, []]"
    using split_py_at_sep [OF e, of "s @ [CHR ''_'']"] split_py_at_sep [OF s, of "[]"] by simp
  have "parse_ion_field ?field loc = Inr (loc\<lparr>on_ion := Some [e, s, []], my_lev := Some (n + 1)\<rparr>)"
    using ne lev by (simp add: parse_ion_field_def sl sp Let_def)
  then show ?thesis by simp
qed

lemma parse_ion_field_plain:
  assumes e: "CHR ''_'' \<notin> set e"
  shows "parse_ion_field (e @ ''_number_density'') loc
         = Inr (loc\<lparr>on_ion := Some [e, []], my_lev := Some 1\<rparr>)"
proof -
  let ?field = "e @ CHR ''_'' # ''number_density''"
  from e have f: "find_py ?field ''number_density'' = int (length e + 1)"
    by (rule find_number_density_plain)
  have "slice_to ?field (int (length e + 1)) = take (length e + 1) ?field"
    by (rule slice_to_int)
  also have "\<dots> = e @ [CHR ''_'']"
    by simp
  finally have sl: "slice_to ?field (find_py ?field ''number_density'') = e @ [CHR ''_'']"
    by (simp only: f)
  have sp: "split_py (CHR ''_'') (e @ [CHR ''_'']) = [e, []]"
    using split_py_at_sep [OF e, of "[]"] by simp
  have "parse_ion_field ?field loc = Inr (loc\<lparr>on_ion := Some [e, []], my_lev := Some 1\<rparr>)"
    by (simp add: parse_ion_field_def sl sp Let_def)
  then show ?thesis by simp
qed

text \<open>
  C8. For a field that the dataset cannot determine and that is not among its derived
  fields, named element, underscore, suffix, \<^verbatim>\<open>_number_density\<close> (element and suffix
  without underscore, the suffix not empty and, after its first character, an integer
  \<open>n\<close> for \<^verbatim>\<open>int\<close>), the pass of the loop requests the element at level \<open>n + 1\<close>; named
  element and \<^verbatim>\<open>_number_density\<close> only, it requests the element at level 1. The
  witness is the two fields of the claim: C\_p3\_number\_density gives C at level 4,
  H\_number\_density gives H at level 1.
\<close>

theorem fallback_ion_level:
  "(CHR ''_'' \<notin> set e \<and> CHR ''_'' \<notin> set s \<and> s \<noteq> [] \<and> py_int (tl s) = Inr n \<longrightarrow>
      ensure_ion_field False False (e @ ''_'' @ s @ ''_number_density'') loc
        = Inr (loc\<lparr>on_ion := Some [e, s, []], my_lev := Some (n + 1)\<rparr>, Some (e, n + 1)))
   \<and> (CHR ''_'' \<notin> set e \<longrightarrow>
      ensure_ion_field False False (e @ ''_number_density'') loc
        = Inr (loc\<lparr>on_ion := Some [e, []], my_lev := Some 1\<rparr>, Some (e, 1)))"
  by (simp add: ensure_ion_field_def parse_ion_field_suffix parse_ion_field_plain
      del: append.simps)

theorem fallback_ion_level_witness:
  "CHR ''_'' \<notin> set ''C'' \<and> CHR ''_'' \<notin> set ''p3'' \<and> ''p3'' \<noteq> [] \<and> py_int (tl ''p3'') = Inr 3
   \<and> ensure_ion_field False False ''C_p3_number_density'' \<lparr>on_ion = None, my_lev = None\<rparr>
       = Inr (\<lparr>on_ion = Some [''C'', ''p3'', []], my_lev = Some 4\<rparr>, Some (''C'', 4))
   \<and> CHR ''_'' \<notin> set ''H''
   \<and> ensure_ion_field False False ''H_number_density'' \<lparr>on_ion = None, my_lev = None\<rparr>
       = Inr (\<lparr>on_ion = Some [''H'', []], my_lev = Some 1\<rparr>, Some (''H'', 1))"
proof -
  have p: "py_int (tl ''p3'') = Inr 3"
    by (simp add: py_int_def strip_def is_space_def is_digit_def digits_val_def digit_val_def)
  from fallback_ion_level [of "''C''" "''p3''" 3 "\<lparr>on_ion = None, my_lev = None\<rparr>"]
    fallback_ion_level [of "''H''" "''p3''" 3 "\<lparr>on_ion = None, my_lev = None\<rparr>"] p
  show ?thesis by simp
qed

end
